theory Spec2Isabelle
  imports Complex_Main
begin

section \<open>Python values, exceptions and dictionaries\<close>

text \<open>
  The values that travel between SQLite, the handlers of \<open>app.py\<close>, the template and
  \<open>jsonify\<close>. A finite float is modelled by the real number it denotes (rounding to the
  nearest double is not modelled); the non-finite floats are kept apart because
  \<open>datetime.fromtimestamp\<close> treats them differently.
\<close>

datatype pyfloat = Fin real | PosInf | NegInf | NaN

datatype pyval =
    PyNone
  | PyInt int
  | PyFloat pyfloat
  | PyStr string
  | PyList "pyval list"
  | PyDict "(string \<times> pyval) list"

datatype exn_class = ValueError | TypeError | OverflowError | OSError | OperationalError

text \<open>An exception is its class and its message (\<open>str(e)\<close>).\<close>

type_synonym pyexn = "exn_class \<times> string"

text \<open>
  A Python \<open>dict\<close> is an association list in insertion order with distinct keys.
  \<open>d[k] = v\<close> overwrites the value of a key that is present, in place, and appends a
  new key at the end.
\<close>

fun dict_setitem :: "('k \<times> 'v) list \<Rightarrow> 'k \<Rightarrow> 'v \<Rightarrow> ('k \<times> 'v) list" where
  "dict_setitem [] k v = [(k, v)]"
| "dict_setitem ((k', v') # d) k v =
     (if k' = k then (k', v) # d else (k', v') # dict_setitem d k v)"

text \<open>\<open>dict(pairs)\<close> and the dict comprehension: one insertion per pair, from left to right.\<close>

definition dict_of_pairs :: "('k \<times> 'v) list \<Rightarrow> ('k \<times> 'v) list" where
  "dict_of_pairs ps = foldl (\<lambda>d (k, v). dict_setitem d k v) [] ps"

text \<open>\<open>d.get(k, default)\<close>.\<close>

definition dict_get :: "('k \<times> 'v) list \<Rightarrow> 'k \<Rightarrow> 'v \<Rightarrow> 'v" where
  "dict_get d k dflt = (case map_of d k of None \<Rightarrow> dflt | Some v \<Rightarrow> v)"

text \<open>\<open>enumerate(xs)\<close>: the pairs \<open>(0, xs[0]), (1, xs[1]), ...\<close>\<close>

definition py_enumerate :: "'a list \<Rightarrow> (int \<times> 'a) list" where
  "py_enumerate xs = zip (map int [0..<length xs]) xs"

section \<open>The label mapping\<close>

text \<open>
  \<open>LABEL_MAP = dict(enumerate(label_encoder.classes_))\<close>. The class list of the loaded
  label encoder is the parameter.
\<close>

definition LABEL_MAP :: "string list \<Rightarrow> (int \<times> string) list" where
  "LABEL_MAP classes = dict_of_pairs (py_enumerate classes)"

text \<open>
  The expression \<open>LABEL_MAP.get(int(row['classification']), "Unknown")\<close> that all three
  handlers apply to a classification ID.
\<close>

definition resolve :: "(int \<times> string) list \<Rightarrow> int \<Rightarrow> string" where
  "resolve label_map c = dict_get label_map c ''Unknown''"

section \<open>The detection store\<close>

text \<open>
  A row of the table \<open>detections\<close>, with the column types of the \<open>CREATE TABLE\<close>
  statement in \<open>init_db\<close>. The column \<open>id\<close> is named \<open>row_id\<close> here.
\<close>

record detection =
  row_id :: int
  timestamp :: real
  source_ip :: string
  destination_ip :: string
  classification :: int

datatype coltype = INTEGER | REAL | TEXT

record column =
  col_name :: string
  col_type :: coltype
  col_not_null :: bool
  col_primary_key_autoincrement :: bool

record table =
  tbl_columns :: "column list"
  tbl_rows :: "detection list"

text \<open>The lower-case form of an ASCII letter; any other character is left as it is.\<close>

definition lower :: "char \<Rightarrow> char" where
  "lower c =
     (case map_of (zip ''ABCDEFGHIJKLMNOPQRSTUVWXYZ'' ''abcdefghijklmnopqrstuvwxyz'') c of
        None \<Rightarrow> c
      | Some l \<Rightarrow> l)"

text \<open>
  SQLite compares the names of tables without regard to the case of ASCII letters. A
  database keeps each table under the lower-case form of its name, which is also the
  form under which a statement looks a table up.
\<close>

definition table_key :: "string \<Rightarrow> string" where
  "table_key name = map lower name"

text \<open>
  The database file: the tables that statements created, by name; the internal table
  \<open>sqlite_sequence(name, seq)\<close>, which SQLite adds when the first table with an
  \<open>AUTOINCREMENT\<close> column is created and in which it keeps the largest id given out
  for each such table (\<open>None\<close> while the database has no such table); and whether
  the file can be written. The rows of a table named \<open>detections\<close> are detection
  records, in rowid order.
\<close>

record database =
  tables :: "(string \<times> table) list"
  sqlite_sequence :: "(string \<times> int) list option"
  writable :: bool

definition find_table :: "string \<Rightarrow> database \<Rightarrow> table option" where
  "find_table name db = map_of (tables db) (table_key name)"

text \<open>The names that \<open>SELECT name FROM sqlite_master\<close> lists.\<close>

definition table_names :: "database \<Rightarrow> string list" where
  "table_names db =
     map fst (tables db) @
     (case sqlite_sequence db of None \<Rightarrow> [] | Some seqs \<Rightarrow> [''sqlite_sequence''])"

text \<open>The process environment: the database behind \<open>DB_PATH\<close>, or \<open>None\<close> when
  the file cannot be opened.\<close>

type_synonym env = "database option"

definition unable_to_open :: pyexn where
  "unable_to_open = (OperationalError, ''unable to open database file'')"

definition no_such_table :: pyexn where
  "no_such_table = (OperationalError, ''no such table: detections'')"

definition readonly_database :: pyexn where
  "readonly_database = (OperationalError, ''attempt to write a readonly database'')"

text \<open>\<open>sqlite3.connect(DB_PATH)\<close>.\<close>

definition connect :: "env \<Rightarrow> pyexn + database" where
  "connect e = (case e of None \<Rightarrow> Inl unable_to_open | Some db \<Rightarrow> Inr db)"

text \<open>The column list of the \<open>CREATE TABLE\<close> statement.\<close>

definition detections_columns :: "column list" where
  "detections_columns =
    [\<lparr>col_name = ''id'', col_type = INTEGER, col_not_null = False,
       col_primary_key_autoincrement = True\<rparr>,
     \<lparr>col_name = ''timestamp'', col_type = REAL, col_not_null = True,
       col_primary_key_autoincrement = False\<rparr>,
     \<lparr>col_name = ''source_ip'', col_type = TEXT, col_not_null = True,
       col_primary_key_autoincrement = False\<rparr>,
     \<lparr>col_name = ''destination_ip'', col_type = TEXT, col_not_null = True,
       col_primary_key_autoincrement = False\<rparr>,
     \<lparr>col_name = ''classification'', col_type = INTEGER, col_not_null = True,
       col_primary_key_autoincrement = False\<rparr>]"

text \<open>
  \<open>CREATE TABLE IF NOT EXISTS detections (...)\<close>: nothing happens when a table of that
  name exists. Otherwise an empty table is added, which needs a writable database;
  since the column \<open>id\<close> is \<open>AUTOINCREMENT\<close>, the statement also adds an empty
  \<open>sqlite_sequence\<close> to a database that has none.
\<close>

definition create_table_if_not_exists :: "database \<Rightarrow> pyexn + database" where
  "create_table_if_not_exists db =
     (case find_table ''detections'' db of
        Some t \<Rightarrow> Inr db
      | None \<Rightarrow>
          if writable db
          then Inr (db\<lparr>tables := tables db @
                        [(table_key ''detections'',
                          \<lparr>tbl_columns = detections_columns, tbl_rows = []\<rparr>)],
                      sqlite_sequence :=
                        (case sqlite_sequence db of
                           None \<Rightarrow> Some []
                         | Some seqs \<Rightarrow> Some seqs)\<rparr>)
          else Inl readonly_database)"

text \<open>
  \<open>init_db\<close>. The call of \<open>sqlite3.connect\<close> stands before the \<open>try\<close>, so its
  exception leaves the function; an \<open>sqlite3.Error\<close> of the statement is printed and
  dropped.
\<close>

definition init_db :: "env \<Rightarrow> pyexn + env" where
  "init_db e =
     (case connect e of
        Inl err \<Rightarrow> Inl err
      | Inr conn \<Rightarrow>
          (case create_table_if_not_exists conn of
             Inl err \<Rightarrow> Inr (Some conn)
           | Inr conn' \<Rightarrow> Inr (Some conn')))"

text \<open>\<open>get_db_connection\<close>: \<open>None\<close> when connecting raises \<open>sqlite3.Error\<close>.\<close>

definition get_db_connection :: "env \<Rightarrow> database option" where
  "get_db_connection e = (case connect e of Inl err \<Rightarrow> None | Inr conn \<Rightarrow> Some conn)"

subsection \<open>The two queries\<close>

text \<open>
  \<open>ORDER BY timestamp DESC\<close>, as an insertion sort. SQL leaves the order of rows with
  equal timestamps open; SQLite scans the table in rowid order and its sorter keeps
  that order among equal keys, so rows of equal timestamp come out in the order of the
  table. \<open>insert_desc r xs\<close> puts a row \<open>r\<close> that stands before the rows of \<open>xs\<close>
  in the table in front of the first row that is not newer than \<open>r\<close>.
\<close>

fun insert_desc :: "detection \<Rightarrow> detection list \<Rightarrow> detection list" where
  "insert_desc r [] = [r]"
| "insert_desc r (x # xs) =
     (if timestamp x \<le> timestamp r then r # x # xs else x # insert_desc r xs)"

definition order_by_timestamp_desc :: "detection list \<Rightarrow> detection list" where
  "order_by_timestamp_desc rs = foldr insert_desc rs []"

text \<open>\<open>SELECT * FROM detections ORDER BY timestamp DESC LIMIT n\<close> on the rows of the
  table.\<close>

definition recent :: "nat \<Rightarrow> detection list \<Rightarrow> detection list" where
  "recent limit rs = take limit (order_by_timestamp_desc rs)"

text \<open>
  \<open>SELECT classification, COUNT(*) as count FROM detections GROUP BY classification\<close> on
  the rows of the table: one pair per classification ID that occurs, with the number of
  its rows. The statement reads the column \<open>classification\<close> only. SQLite sorts the rows
  by the grouping key, so the groups come out in ascending order of the ID.
\<close>

definition count_groups :: "int list \<Rightarrow> (int \<times> int) list" where
  "count_groups cs =
     map (\<lambda>c. (c, int (length (filter (\<lambda>x. x = c) cs)))) (sort (remdups cs))"

definition group_by_classification :: "detection list \<Rightarrow> (int \<times> int) list" where
  "group_by_classification rs = count_groups (map classification rs)"

text \<open>
  \<open>conn.execute(...).fetchall()\<close> for the two \<open>SELECT\<close> statements: the result, or the
  error of a missing table, together with the database after the statement.
\<close>

definition select_recent ::
  "nat \<Rightarrow> database \<Rightarrow> (pyexn + detection list) \<times> database" where
  "select_recent limit db =
     (case find_table ''detections'' db of
        None \<Rightarrow> (Inl no_such_table, db)
      | Some t \<Rightarrow> (Inr (recent limit (tbl_rows t)), db))"

definition select_stats :: "database \<Rightarrow> (pyexn + (int \<times> int) list) \<times> database" where
  "select_stats db =
     (case find_table ''detections'' db of
        None \<Rightarrow> (Inl no_such_table, db)
      | Some t \<Rightarrow> (Inr (group_by_classification (tbl_rows t)), db))"

section \<open>The timestamp filter\<close>

subsection \<open>\<open>float(value)\<close>\<close>

text \<open>
  The characters that \<open>float\<close> strips from both ends of a string; only ASCII is
  modelled.
\<close>

definition is_space :: "char \<Rightarrow> bool" where
  "is_space c \<longleftrightarrow>
     c \<in> set [CHR '' '', CHR 0x09, CHR 0x0A, CHR 0x0B, CHR 0x0C, CHR 0x0D,
              CHR 0x1C, CHR 0x1D, CHR 0x1E, CHR 0x1F]"

definition strip :: "string \<Rightarrow> string" where
  "strip s = rev (dropWhile is_space (rev (dropWhile is_space s)))"

definition digit_val :: "char \<Rightarrow> nat option" where
  "digit_val c = map_of (zip ''0123456789'' [0..<10]) c"

text \<open>The tail \<open>(["_"] digit)*\<close> of a digit part: its digits and the rest of the string.\<close>

fun digits_tail :: "string \<Rightarrow> nat list \<times> string" where
  "digits_tail [] = ([], [])"
| "digits_tail [c] = (case digit_val c of Some d \<Rightarrow> ([d], []) | None \<Rightarrow> ([], [c]))"
| "digits_tail (c # c' # cs) =
     (case digit_val c of
        Some d \<Rightarrow> (let (ds, r) = digits_tail (c' # cs) in (d # ds, r))
      | None \<Rightarrow>
          (if c = CHR ''_'' then
             (case digit_val c' of
                Some d' \<Rightarrow> (let (ds, r) = digits_tail cs in (d' # ds, r))
              | None \<Rightarrow> ([], c # c' # cs))
           else ([], c # c' # cs)))"

text \<open>\<open>digitpart ::= digit (["_"] digit)*\<close>\<close>

definition digitpart :: "string \<Rightarrow> (nat list \<times> string) option" where
  "digitpart s =
     (case s of
        [] \<Rightarrow> None
      | c # cs \<Rightarrow>
          (case digit_val c of
             None \<Rightarrow> None
           | Some d \<Rightarrow> (let (ds, r) = digits_tail cs in Some (d # ds, r))))"

definition digits_value :: "nat list \<Rightarrow> nat" where
  "digits_value ds = foldl (\<lambda>a d. 10 * a + d) 0 ds"

text \<open>
  \<open>number ::= [digitpart] "." digitpart | digitpart ["."]\<close>: the digits before and
  after the point, and the rest of the string.
\<close>

definition number :: "string \<Rightarrow> (nat list \<times> nat list \<times> string) option" where
  "number s =
     (case digitpart s of
        Some (ip, r) \<Rightarrow>
          (case r of
             [] \<Rightarrow> Some (ip, [], r)
           | c # r' \<Rightarrow>
               (if c = CHR ''.'' then
                  (case digitpart r' of
                     Some (fp, r'') \<Rightarrow> Some (ip, fp, r'')
                   | None \<Rightarrow> Some (ip, [], r'))
                else Some (ip, [], r)))
      | None \<Rightarrow>
          (case s of
             [] \<Rightarrow> None
           | c # r \<Rightarrow>
               (if c = CHR ''.'' then
                  (case digitpart r of
                     Some (fp, r') \<Rightarrow> Some ([], fp, r')
                   | None \<Rightarrow> None)
                else None)))"

text \<open>\<open>exponent ::= ("e" | "E") [sign] digitpart\<close>, up to the end of the string; an
  empty string is the exponent 0.\<close>

definition exponent :: "string \<Rightarrow> int option" where
  "exponent s =
     (case s of
        [] \<Rightarrow> Some 0
      | c # r \<Rightarrow>
          (if lower c = CHR ''e'' then
             (let (neg, r') =
                    (case r of
                       [] \<Rightarrow> (False, r)
                     | x # xs \<Rightarrow>
                         if x = CHR ''-'' then (True, xs)
                         else if x = CHR ''+'' then (False, xs)
                         else (False, r))
              in case digitpart r' of
                   Some (ds, []) \<Rightarrow>
                     Some (if neg then - int (digits_value ds) else int (digits_value ds))
                 | _ \<Rightarrow> None)
           else None))"

text \<open>
  A real number as a double: beyond the largest double the result is an infinity.
  Rounding inside the range is not modelled.
\<close>

definition double_of_real :: "real \<Rightarrow> pyfloat" where
  "double_of_real x =
     (if 2 ^ 1024 - 2 ^ 970 \<le> x then PosInf
      else if x \<le> - (2 ^ 1024 - 2 ^ 970) then NegInf
      else Fin x)"

definition negate :: "pyfloat \<Rightarrow> pyfloat" where
  "negate f = (case f of Fin x \<Rightarrow> Fin (- x) | PosInf \<Rightarrow> NegInf | NegInf \<Rightarrow> PosInf | NaN \<Rightarrow> NaN)"

text \<open>\<open>absfloatvalue ::= floatnumber | infinity | nan\<close>, letter case ignored.\<close>

definition absfloatvalue :: "string \<Rightarrow> pyfloat option" where
  "absfloatvalue s =
     (if map lower s = ''inf'' \<or> map lower s = ''infinity'' then Some PosInf
      else if map lower s = ''nan'' then Some NaN
      else
        (case number s of
           None \<Rightarrow> None
         | Some (ip, fp, r) \<Rightarrow>
             (case exponent r of
                None \<Rightarrow> None
              | Some ex \<Rightarrow>
                  (let m = real (digits_value (ip @ fp)) / 10 ^ length fp
                   in Some (double_of_real
                        (if 0 \<le> ex then m * 10 ^ nat ex else m / 10 ^ nat (- ex)))))))"

text \<open>\<open>float(s)\<close> for a string: \<open>None\<close> stands for its \<open>ValueError\<close>.\<close>

definition float_of_string :: "string \<Rightarrow> pyfloat option" where
  "float_of_string s =
     (case strip s of
        [] \<Rightarrow> None
      | c # cs \<Rightarrow>
          if c = CHR ''-'' then map_option negate (absfloatvalue cs)
          else if c = CHR ''+'' then absfloatvalue cs
          else absfloatvalue (c # cs))"

text \<open>\<open>float(value)\<close>.\<close>

definition py_float :: "pyval \<Rightarrow> pyexn + pyfloat" where
  "py_float v =
     (case v of
        PyFloat f \<Rightarrow> Inr f
      | PyInt i \<Rightarrow>
          (case double_of_real (of_int i) of
             Fin x \<Rightarrow> Inr (Fin x)
           | _ \<Rightarrow> Inl (OverflowError, ''int too large to convert to float''))
      | PyStr s \<Rightarrow>
          (case float_of_string s of
             Some f \<Rightarrow> Inr f
           | None \<Rightarrow> Inl (ValueError, ''could not convert string to float''))
      | _ \<Rightarrow> Inl (TypeError, ''float() argument must be a string or a real number''))"

subsection \<open>\<open>datetime.fromtimestamp\<close> and \<open>strftime\<close>\<close>

record datetime =
  year :: int
  month :: int
  day :: int
  hour :: int
  minute :: int
  second :: int
  microsecond :: int

definition round_half_even :: "real \<Rightarrow> int" where
  "round_half_even x =
     (let f = \<lfloor>x\<rfloor>; d = x - of_int f
      in if d < 1 / 2 then f else if 1 / 2 < d then f + 1 else if even f then f else f + 1)"

text \<open>The proleptic Gregorian date (year, month, day) of a day number counted from
  1970-01-01.\<close>

definition civil_from_days :: "int \<Rightarrow> int \<times> int \<times> int" where
  "civil_from_days z =
     (let z' = z + 719468;
          era = z' div 146097;
          doe = z' mod 146097;
          yoe = (doe - doe div 1460 + doe div 36524 - doe div 146096) div 365;
          doy = doe - (365 * yoe + yoe div 4 - yoe div 100);
          mp = (5 * doy + 2) div 153;
          d = doy - (153 * mp + 2) div 5 + 1;
          m = (if mp < 10 then mp + 3 else mp - 9);
          y = yoe + era * 400
      in (if m \<le> 2 then y + 1 else y, m, d))"

text \<open>The range of \<open>time_t\<close> on a platform where it has 64 bits.\<close>

definition time_t_min :: int where "time_t_min = - (2 ^ 63)"
definition time_t_max :: int where "time_t_max = 2 ^ 63 - 1"

text \<open>
  \<open>datetime.fromtimestamp(f)\<close>, in local time. The parameter \<open>utcoffset\<close> gives the
  offset of the local zone, in seconds east of UTC, at an instant. The timestamp is
  rounded half-even to microseconds. A timestamp outside \<open>time_t\<close>, and an infinity,
  raise \<open>OverflowError\<close>; a year that the C \<open>localtime\<close> cannot hold in an \<open>int\<close>
  raises \<open>OSError\<close>; a NaN, and a year outside 1..9999, raise \<open>ValueError\<close>.
\<close>

definition digit_char :: "nat \<Rightarrow> char" where
  "digit_char d = ''0123456789'' ! (d mod 10)"

text \<open>The decimal digits of a natural number, and \<open>str(i)\<close> of an integer.\<close>

fun decimal :: "nat \<Rightarrow> string" where
  "decimal n = (if n < 10 then [digit_char n] else decimal (n div 10) @ [digit_char n])"

definition str_int :: "int \<Rightarrow> string" where
  "str_int i = (if i < 0 then ''-'' @ decimal (nat (- i)) else decimal (nat i))"

definition fromtimestamp :: "(int \<Rightarrow> int) \<Rightarrow> pyfloat \<Rightarrow> pyexn + datetime" where
  "fromtimestamp utcoffset f =
     (case f of
        NaN \<Rightarrow> Inl (ValueError, ''Invalid value NaN (not a number)'')
      | PosInf \<Rightarrow> Inl (OverflowError, ''timestamp out of range for platform time_t'')
      | NegInf \<Rightarrow> Inl (OverflowError, ''timestamp out of range for platform time_t'')
      | Fin t \<Rightarrow>
          (let us = round_half_even (t * 1000000);
               secs = us div 1000000
           in if secs < time_t_min \<or> time_t_max < secs
              then Inl (OverflowError, ''timestamp out of range for platform time_t'')
              else
                (let local = secs + utcoffset secs;
                     (y, m, d) = civil_from_days (local div 86400);
                     sod = local mod 86400
                 in if y - 1900 < - (2 ^ 31) \<or> 2 ^ 31 - 1 < y - 1900
                    then Inl (OSError, ''[Errno 75] Value too large for defined data type'')
                    else if y < 1 \<or> 9999 < y
                    then Inl (ValueError, ''year '' @ str_int y @ '' is out of range'')
                    else Inr \<lparr>year = y, month = m, day = d, hour = sod div 3600,
                               minute = sod mod 3600 div 60, second = sod mod 60,
                               microsecond = us mod 1000000\<rparr>)))"

definition pad2 :: "int \<Rightarrow> string" where
  "pad2 n = [digit_char (nat n div 10), digit_char (nat n)]"

definition pad4 :: "int \<Rightarrow> string" where
  "pad4 n = [digit_char (nat n div 1000), digit_char (nat n div 100),
             digit_char (nat n div 10), digit_char (nat n)]"

text \<open>\<open>dt.strftime('%Y-%m-%d %H:%M:%S')\<close>, every field padded with zeros.\<close>

definition strftime :: "datetime \<Rightarrow> string" where
  "strftime dt =
     pad4 (year dt) @ ''-'' @ pad2 (month dt) @ ''-'' @ pad2 (day dt) @ '' '' @
     pad2 (hour dt) @ '':'' @ pad2 (minute dt) @ '':'' @ pad2 (second dt)"

subsection \<open>\<open>datetime_filter\<close>\<close>

text \<open>
  The \<open>try\<close> block converts, builds the date and formats it; the \<open>except\<close> clause
  catches \<open>ValueError\<close> and \<open>TypeError\<close> and nothing else, so any other exception
  leaves the function.
\<close>

definition datetime_filter :: "(int \<Rightarrow> int) \<Rightarrow> pyval \<Rightarrow> pyexn + string" where
  "datetime_filter utcoffset v =
     (let attempt =
            (case py_float v of
               Inl err \<Rightarrow> Inl err
             | Inr f \<Rightarrow>
                 (case fromtimestamp utcoffset f of
                    Inl err \<Rightarrow> Inl err
                  | Inr dt \<Rightarrow> Inr (strftime dt)))
      in case attempt of
           Inr s \<Rightarrow> Inr s
         | Inl err \<Rightarrow>
             if fst err = ValueError \<or> fst err = TypeError
             then Inr ''Invalid timestamp''
             else Inl err)"

section \<open>Responses and the template\<close>

text \<open>
  What the page shows: the detections, each with its timestamp as formatted text, and the
  count of each label.
\<close>

record page =
  page_detections :: "(string \<times> pyval) list list"
  page_stats :: "(string \<times> int) list"

text \<open>
  A response is a status code and a body: a rendered page, a plain string, or the value
  handed to \<open>jsonify\<close>.
\<close>

datatype body = Html page | Text string | Json pyval

type_synonym response = "nat \<times> body"

text \<open>
  Modelled from the spec: the template \<open>dashboard.html\<close> is not among the sources. It
  shows the detection list with every timestamp passed through the \<open>datetime\<close> filter,
  and the counts per label. An exception of the filter leaves the rendering.
\<close>

fun format_rows ::
  "(int \<Rightarrow> int) \<Rightarrow> (string \<times> pyval) list list \<Rightarrow> pyexn + (string \<times> pyval) list list" where
  "format_rows utcoffset [] = Inr []"
| "format_rows utcoffset (d # ds) =
     (case datetime_filter utcoffset (dict_get d ''timestamp'' PyNone) of
        Inl err \<Rightarrow> Inl err
      | Inr s \<Rightarrow>
          (case format_rows utcoffset ds of
             Inl err \<Rightarrow> Inl err
           | Inr shown \<Rightarrow> Inr (dict_setitem d ''timestamp'' (PyStr s) # shown)))"

definition render_template ::
  "(int \<Rightarrow> int) \<Rightarrow> (string \<times> pyval) list list \<Rightarrow> (string \<times> int) list \<Rightarrow> pyexn + page" where
  "render_template utcoffset detections stats =
     (case format_rows utcoffset detections of
        Inl err \<Rightarrow> Inl err
      | Inr shown \<Rightarrow> Inr \<lparr>page_detections = shown, page_stats = stats\<rparr>)"

section \<open>The JSON handlers\<close>

text \<open>A \<open>sqlite3.Row\<close> as a mapping from column names to values.\<close>

definition Row :: "detection \<Rightarrow> (string \<times> pyval) list" where
  "Row r =
     [(''id'', PyInt (row_id r)),
      (''timestamp'', PyFloat (Fin (timestamp r))),
      (''source_ip'', PyStr (source_ip r)),
      (''destination_ip'', PyStr (destination_ip r)),
      (''classification'', PyInt (classification r))]"

text \<open>
  \<open>dict(row, classification=LABEL_MAP.get(int(row['classification']), "Unknown"))\<close>:
  a dict of the row's items, then the keyword argument is stored.
\<close>

definition with_label :: "(int \<times> string) list \<Rightarrow> detection \<Rightarrow> (string \<times> pyval) list" where
  "with_label label_map r =
     dict_setitem (dict_of_pairs (Row r)) ''classification''
       (PyStr (resolve label_map (classification r)))"

text \<open>
  \<open>{LABEL_MAP.get(int(row['classification']), "Unknown"): row['count'] for row in stats}\<close>
\<close>

definition stats_dict :: "(int \<times> string) list \<Rightarrow> (int \<times> int) list \<Rightarrow> (string \<times> int) list" where
  "stats_dict label_map stats =
     dict_of_pairs (map (\<lambda>(c, n). (resolve label_map c, n)) stats)"

definition json_error :: "string \<Rightarrow> body" where
  "json_error msg = Json (PyDict [(''error'', PyStr msg)])"

text \<open>\<open>api_detections\<close>. Each handler returns its response and the environment it
  leaves behind.\<close>

definition api_detections ::
  "(int \<times> string) list \<Rightarrow> env \<Rightarrow> response \<times> env" where
  "api_detections label_map e =
     (case get_db_connection e of
        None \<Rightarrow> ((500, json_error ''Database connection error''), e)
      | Some conn \<Rightarrow>
          (case select_recent 100 conn of
             (Inl err, conn') \<Rightarrow> ((500, json_error (snd err)), Some conn')
           | (Inr detections, conn') \<Rightarrow>
               ((200, Json (PyList (map (\<lambda>row. PyDict (with_label label_map row)) detections))),
                Some conn')))"

text \<open>\<open>api_stats\<close>.\<close>

definition api_stats ::
  "(int \<times> string) list \<Rightarrow> env \<Rightarrow> response \<times> env" where
  "api_stats label_map e =
     (case get_db_connection e of
        None \<Rightarrow> ((500, json_error ''Database connection error''), e)
      | Some conn \<Rightarrow>
          (case select_stats conn of
             (Inl err, conn') \<Rightarrow> ((500, json_error (snd err)), Some conn')
           | (Inr stats, conn') \<Rightarrow>
               ((200, Json (PyDict (map (\<lambda>(l, n). (l, PyInt n)) (stats_dict label_map stats)))),
                Some conn')))"

section \<open>The dashboard\<close>

text \<open>
  \<open>dashboard\<close>: both queries, the labels, then the template. Every exception inside
  the \<open>try\<close> becomes a 500 response with its message.
\<close>

definition dashboard_error :: "pyexn \<Rightarrow> response" where
  "dashboard_error err = (500, Text (''An error occurred: '' @ snd err))"

definition dashboard ::
  "(int \<Rightarrow> int) \<Rightarrow> (int \<times> string) list \<Rightarrow> env \<Rightarrow> response \<times> env" where
  "dashboard utcoffset label_map e =
     (case get_db_connection e of
        None \<Rightarrow> ((500, Text ''Database connection error''), e)
      | Some conn \<Rightarrow>
          (case select_recent 100 conn of
             (Inl err, conn') \<Rightarrow> (dashboard_error err, Some conn')
           | (Inr detections, conn') \<Rightarrow>
               (let detections_with_types = map (with_label label_map) detections
                in case select_stats conn' of
                     (Inl err, conn'') \<Rightarrow> (dashboard_error err, Some conn'')
                   | (Inr stats, conn'') \<Rightarrow>
                       (case render_template utcoffset detections_with_types
                               (stats_dict label_map stats) of
                          Inl err \<Rightarrow> (dashboard_error err, Some conn'')
                        | Inr html \<Rightarrow> ((200, Html html), Some conn'')))))"

section \<open>Example data\<close>

text \<open>The mapping \<open>{0: "BENIGN", 1: "Bot"}\<close> comes from this class list.\<close>

definition example_classes :: "string list" where
  "example_classes = [''BENIGN'', ''Bot'']"

definition example_detection :: "int \<Rightarrow> real \<Rightarrow> int \<Rightarrow> detection" where
  "example_detection i ts c =
     \<lparr>row_id = i, timestamp = ts, source_ip = ''10.0.0.1'', destination_ip = ''10.0.0.2'',
      classification = c\<rparr>"

text \<open>
  A database in which \<open>init_db\<close> created the table \<open>detections\<close> and which holds
  the given rows: \<open>sqlite_sequence\<close> is empty while no row was inserted and holds the
  largest id afterwards.
\<close>

definition store_of :: "detection list \<Rightarrow> database" where
  "store_of rs =
     \<lparr>tables = [(''detections'', \<lparr>tbl_columns = detections_columns, tbl_rows = rs\<rparr>)],
      sqlite_sequence =
        Some (case rs of
                [] \<Rightarrow> []
              | r # rs' \<Rightarrow> [(''detections'', fold max (map row_id rs') (row_id r))]),
      writable = True\<rparr>"

text \<open>Four detections with the classification IDs 0, 1, 0, 99.\<close>

definition example_rows :: "detection list" where
  "example_rows =
     [example_detection 1 1700000000 0, example_detection 2 1700000060 1,
      example_detection 3 1700000030 0, example_detection 4 1700000090 99]"

text \<open>Three detections whose classification IDs, 98, 98 and 99, are outside the mapping.\<close>

definition unmapped_rows :: "detection list" where
  "unmapped_rows =
     [example_detection 1 1700000000 98, example_detection 2 1700000060 98,
      example_detection 3 1700000030 99]"

text \<open>A new, empty database file.\<close>

definition empty_database :: database where
  "empty_database = \<lparr>tables = [], sqlite_sequence = None, writable = True\<rparr>"

text \<open>Two time zones, as offsets from UTC in seconds: UTC itself and one hour east of it.\<close>

definition utc :: "int \<Rightarrow> int" where
  "utc t = 0"

definition utc_plus_one :: "int \<Rightarrow> int" where
  "utc_plus_one t = 3600"

text \<open>Four detections of which two pairs have equal timestamps.\<close>

definition tied_rows :: "detection list" where
  "tied_rows =
     [example_detection 1 1700000000 0, example_detection 2 1700000060 1,
      example_detection 3 1700000060 0, example_detection 4 1700000000 99]"

text \<open>
  A read-only database that holds the given rows in its table \<open>detections\<close> beside
  another table.
\<close>

definition archive_of :: "detection list \<Rightarrow> database" where
  "archive_of rs =
     \<lparr>tables = [(''hosts'', \<lparr>tbl_columns = [], tbl_rows = []\<rparr>),
                (''detections'', \<lparr>tbl_columns = detections_columns, tbl_rows = rs\<rparr>)],
      sqlite_sequence = Some [(''detections'', 7)],
      writable = False\<rparr>"

text \<open>The page that the dashboard shows for the four example detections, in UTC.\<close>

definition example_page :: page where
  "example_page =
     \<lparr>page_detections =
        [[(''id'', PyInt 4), (''timestamp'', PyStr ''2023-11-14 22:14:50''),
          (''source_ip'', PyStr ''10.0.0.1''), (''destination_ip'', PyStr ''10.0.0.2''),
          (''classification'', PyStr ''Unknown'')],
         [(''id'', PyInt 2), (''timestamp'', PyStr ''2023-11-14 22:14:20''),
          (''source_ip'', PyStr ''10.0.0.1''), (''destination_ip'', PyStr ''10.0.0.2''),
          (''classification'', PyStr ''Bot'')],
         [(''id'', PyInt 3), (''timestamp'', PyStr ''2023-11-14 22:13:50''),
          (''source_ip'', PyStr ''10.0.0.1''), (''destination_ip'', PyStr ''10.0.0.2''),
          (''classification'', PyStr ''BENIGN'')],
         [(''id'', PyInt 1), (''timestamp'', PyStr ''2023-11-14 22:13:20''),
          (''source_ip'', PyStr ''10.0.0.1''), (''destination_ip'', PyStr ''10.0.0.2''),
          (''classification'', PyStr ''BENIGN'')]],
      page_stats = [(''BENIGN'', 2), (''Bot'', 1), (''Unknown'', 1)]\<rparr>"

section \<open>Dictionary lemmas\<close>

lemma map_of_dict_setitem: "map_of (dict_setitem d k v) = (map_of d)(k \<mapsto> v)"
  by (induction d k v rule: dict_setitem.induct) (auto simp: fun_eq_iff)

lemma keys_dict_setitem:
  "map fst (dict_setitem d k v) = (if k \<in> fst ` set d then map fst d else map fst d @ [k])"
  by (induction d k v rule: dict_setitem.induct) auto

lemma distinct_dict_setitem:
  "distinct (map fst d) \<Longrightarrow> distinct (map fst (dict_setitem d k v))"
  by (simp add: keys_dict_setitem)

lemma foldl_setitem_map_of:
  "map_of (foldl (\<lambda>d (k, v). dict_setitem d k v) acc ps) = map_of acc ++ map_of (rev ps)"
proof (induction ps arbitrary: acc)
  case Nil
  then show ?case by simp
next
  case (Cons p ps)
  obtain k v where p: "p = (k, v)" by (cases p)
  have "map_of (foldl (\<lambda>d (k, v). dict_setitem d k v) (dict_setitem acc k v) ps)
      = (map_of acc)(k \<mapsto> v) ++ map_of (rev ps)"
    by (simp only: Cons.IH map_of_dict_setitem)
  also have "\<dots> = map_of acc ++ map_of (rev ps @ [(k, v)])"
    by (auto simp: fun_eq_iff map_add_def split: option.splits)
  finally show ?case by (simp add: p)
qed

lemma foldl_setitem_distinct:
  "distinct (map fst acc) \<Longrightarrow>
   distinct (map fst (foldl (\<lambda>d (k, v). dict_setitem d k v) acc ps))"
  by (induction ps arbitrary: acc) (auto simp: distinct_dict_setitem split: prod.splits)

lemma map_of_dict_of_pairs: "map_of (dict_of_pairs ps) = map_of (rev ps)"
  by (simp add: dict_of_pairs_def foldl_setitem_map_of)

lemma distinct_dict_of_pairs: "distinct (map fst (dict_of_pairs ps))"
  by (simp add: dict_of_pairs_def foldl_setitem_distinct)

lemma map_of_rev_distinct:
  "distinct (map fst ps) \<Longrightarrow> map_of (rev ps) = map_of ps"
proof -
  assume d: "distinct (map fst ps)"
  then have "distinct (map fst (rev ps))"
    by (simp add: rev_map [symmetric])
  from this d have "map_of (rev ps) = map_of ps \<longleftrightarrow> set (rev ps) = set ps"
    by (rule map_of_inject_set)
  then show ?thesis by simp
qed

lemma map_of_py_enumerate:
  "map_of (py_enumerate xs) k =
     (if 0 \<le> k \<and> k < int (length xs) then Some (xs ! nat k) else None)"
proof (cases "0 \<le> k \<and> k < int (length xs)")
  case True
  then have n: "nat k < length xs" by linarith
  have "map_of (zip (map int [0..<length xs]) xs) (map int [0..<length xs] ! nat k)
      = Some (xs ! nat k)"
    by (rule map_of_zip_nth) (simp_all add: n distinct_map inj_on_def)
  then show ?thesis using True n by (simp add: py_enumerate_def)
next
  case False
  then have "k \<notin> set (map int [0..<length xs])" by auto
  then have "map_of (py_enumerate xs) k = None"
    unfolding py_enumerate_def by (simp add: map_of_zip_is_None)
  with False show ?thesis by simp
qed

lemma distinct_keys_py_enumerate: "distinct (map fst (py_enumerate xs))"
  by (simp add: py_enumerate_def distinct_map inj_on_def)

lemma map_of_LABEL_MAP:
  "map_of (LABEL_MAP classes) k =
     (if 0 \<le> k \<and> k < int (length classes) then Some (classes ! nat k) else None)"
  by (simp add: LABEL_MAP_def map_of_dict_of_pairs map_of_rev_distinct
      distinct_keys_py_enumerate map_of_py_enumerate)

section \<open>Query lemmas\<close>

lemma table_key_detections: "table_key ''detections'' = ''detections''"
  by (simp add: table_key_def lower_def)

lemma find_table_detections:
  "find_table ''detections'' db = map_of (tables db) ''detections''"
  by (simp add: find_table_def table_key_detections)

lemma set_insert_desc: "set (insert_desc r xs) = insert r (set xs)"
  by (induction xs) auto

lemma length_insert_desc: "length (insert_desc r xs) = Suc (length xs)"
  by (induction xs) auto

lemma newest_first_insert_desc:
  "sorted_wrt (\<lambda>a b. timestamp b \<le> timestamp a) xs \<Longrightarrow>
   sorted_wrt (\<lambda>a b. timestamp b \<le> timestamp a) (insert_desc r xs)"
  by (induction xs) (auto simp: set_insert_desc)

lemma length_order_by_timestamp_desc: "length (order_by_timestamp_desc rs) = length rs"
  unfolding order_by_timestamp_desc_def by (induction rs) (simp_all add: length_insert_desc)

lemma set_order_by_timestamp_desc: "set (order_by_timestamp_desc rs) = set rs"
  unfolding order_by_timestamp_desc_def by (induction rs) (simp_all add: set_insert_desc)

lemma newest_first_order_by_timestamp_desc:
  "sorted_wrt (\<lambda>a b. timestamp b \<le> timestamp a) (order_by_timestamp_desc rs)"
  unfolding order_by_timestamp_desc_def
  by (induction rs) (simp_all add: newest_first_insert_desc)

lemma sorted_wrt_take: "sorted_wrt P xs \<Longrightarrow> sorted_wrt P (take n xs)"
  by (metis append_take_drop_id sorted_wrt_append)

lemma length_recent: "length (recent limit rs) = min limit (length rs)"
  by (simp add: recent_def length_order_by_timestamp_desc min.commute)

lemma set_recent: "set (recent limit rs) \<subseteq> set rs"
  using set_take_subset [of limit "order_by_timestamp_desc rs"]
  by (simp add: recent_def set_order_by_timestamp_desc)

lemma newest_first_recent:
  "sorted_wrt (\<lambda>a b. timestamp b \<le> timestamp a) (recent limit rs)"
  by (simp add: recent_def sorted_wrt_take newest_first_order_by_timestamp_desc)

section \<open>Handler lemmas\<close>

lemma api_detections_table:
  "map_of (tables db) ''detections'' = Some t \<Longrightarrow>
   api_detections label_map (Some db) =
     ((200, Json (PyList (map (\<lambda>r. PyDict (with_label label_map r)) (recent 100 (tbl_rows t))))),
      Some db)"
  by (simp add: api_detections_def get_db_connection_def connect_def select_recent_def
      find_table_detections)

lemma api_stats_table:
  "map_of (tables db) ''detections'' = Some t \<Longrightarrow>
   api_stats label_map (Some db) =
     ((200, Json (PyDict (map (\<lambda>(l, n). (l, PyInt n))
         (stats_dict label_map (group_by_classification (tbl_rows t)))))),
      Some db)"
  by (simp add: api_stats_def get_db_connection_def connect_def select_stats_def
      find_table_detections)

lemma dashboard_table:
  "map_of (tables db) ''detections'' = Some t \<Longrightarrow>
   dashboard utcoffset label_map (Some db) =
     (case render_template utcoffset (map (with_label label_map) (recent 100 (tbl_rows t)))
             (stats_dict label_map (group_by_classification (tbl_rows t))) of
        Inl err \<Rightarrow> (dashboard_error err, Some db)
      | Inr html \<Rightarrow> ((200, Html html), Some db))"
  by (simp add: dashboard_def get_db_connection_def connect_def select_recent_def
      select_stats_def find_table_detections)

lemma keys_Row:
  "map fst (Row r) = [''id'', ''timestamp'', ''source_ip'', ''destination_ip'', ''classification'']"
  by (simp add: Row_def)

lemma dict_of_pairs_distinct:
  "distinct (map fst ps) \<Longrightarrow> dict_of_pairs ps = ps"
proof -
  have "distinct (map fst (acc @ ps)) \<Longrightarrow>
        foldl (\<lambda>d (k, v). dict_setitem d k v) acc ps = acc @ ps" for acc
  proof (induction ps arbitrary: acc)
    case Nil
    then show ?case by simp
  next
    case (Cons p ps)
    obtain k v where p: "p = (k, v)" by (cases p)
    have fresh: "k \<notin> fst ` set acc" using Cons.prems by (auto simp: p)
    have app: "dict_setitem acc k v = acc @ [(k, v)]" using fresh
      by (induction acc) auto
    show ?case using Cons.IH [of "acc @ [(k, v)]"] Cons.prems by (simp add: p app)
  qed
  from this [of "[]"] show "distinct (map fst ps) \<Longrightarrow> dict_of_pairs ps = ps"
    by (simp add: dict_of_pairs_def)
qed

lemma dict_of_pairs_Row: "dict_of_pairs (Row r) = Row r"
  by (rule dict_of_pairs_distinct) (simp add: keys_Row)

lemma keys_with_label: "map fst (with_label label_map r) = map fst (Row r)"
  by (simp add: with_label_def dict_of_pairs_Row keys_dict_setitem) (simp add: Row_def)

lemma map_of_with_label:
  "map_of (with_label label_map r) =
     (map_of (Row r))(''classification'' \<mapsto> PyStr (resolve label_map (classification r)))"
  by (simp add: with_label_def dict_of_pairs_Row map_of_dict_setitem)

lemma format_rows_ids:
  "format_rows u ds = Inr shown \<Longrightarrow>
   map (\<lambda>d. map_of d ''id'') shown = map (\<lambda>d. map_of d ''id'') ds"
  by (induction ds arbitrary: shown) (auto simp: map_of_dict_setitem split: sum.splits)

lemma sum_count_groups: "sum_list (map snd (count_groups cs)) = int (length cs)"
proof -
  have "sum_list (map snd (count_groups cs))
      = sum_list (map (\<lambda>c. int (count_list cs c)) (sort (remdups cs)))"
    by (simp add: count_groups_def comp_def count_list_eq_length_filter eq_commute)
  also have "\<dots> = (\<Sum>c\<in>set cs. int (count_list cs c))"
    by (subst sum_list_distinct_conv_sum_set) simp_all
  also have "\<dots> = int (sum (count_list cs) (set cs))" by simp
  also have "\<dots> = int (length cs)" by (simp add: sum_count_set)
  finally show ?thesis .
qed

lemma keys_count_groups: "map fst (count_groups cs) = sort (remdups cs)"
  by (simp add: count_groups_def comp_def)

section \<open>Label resolution\<close>

text \<open>
  C1. The keys of the label mapping are the indices of the class list. Resolving a key
  returns the label configured for it; resolving any other integer returns
  \<open>''Unknown''\<close>. The lookup is total: it has a value for every integer.
\<close>

theorem resolve_LABEL_MAP:
  "(0 \<le> k \<and> k < int (length classes) \<longrightarrow>
      map_of (LABEL_MAP classes) k = Some (classes ! nat k) \<and>
      resolve (LABEL_MAP classes) k = classes ! nat k) \<and>
   (\<not> (0 \<le> k \<and> k < int (length classes)) \<longrightarrow>
      map_of (LABEL_MAP classes) k = None \<and>
      resolve (LABEL_MAP classes) k = ''Unknown'')"
  by (simp add: resolve_def dict_get_def map_of_LABEL_MAP)

theorem resolve_LABEL_MAP_witness:
  "(0 \<le> (1::int) \<and> (1::int) < int (length [''BENIGN'', ''Bot''])) \<and>
   resolve (LABEL_MAP [''BENIGN'', ''Bot'']) 1 = ''Bot'' \<and>
   \<not> (0 \<le> (99::int) \<and> (99::int) < int (length [''BENIGN'', ''Bot''])) \<and>
   resolve (LABEL_MAP [''BENIGN'', ''Bot'']) 99 = ''Unknown''"
  using resolve_LABEL_MAP [of 1 "[''BENIGN'', ''Bot'']"]
    resolve_LABEL_MAP [of 99 "[''BENIGN'', ''Bot'']"]
  by simp

lemma example_store_table:
  "map_of (tables (store_of rs)) ''detections'' =
     Some \<lparr>tbl_columns = detections_columns, tbl_rows = rs\<rparr>"
  by (simp add: store_of_def)

section \<open>The recent detections\<close>

text \<open>
  C3. The query for the recent detections returns at most \<open>limit\<close> rows, newest first.
  Both \<open>/api/detections\<close> and the dashboard run it with the limit 100: the array of the
  API is made of its rows, and a page that the dashboard renders lists its rows, in its
  order.
\<close>

theorem recent_at_most_limit_newest_first:
  "length (recent limit rs) \<le> limit \<and>
   sorted_wrt (\<lambda>a b. timestamp b \<le> timestamp a) (recent limit rs) \<and>
   (map_of (tables db) ''detections'' = Some t \<longrightarrow>
      fst (api_detections label_map (Some db)) =
        (200, Json (PyList (map (\<lambda>r. PyDict (with_label label_map r))
                 (recent 100 (tbl_rows t))))) \<and>
      (\<forall>pg e'. dashboard utcoffset label_map (Some db) = ((200, Html pg), e') \<longrightarrow>
         map (\<lambda>d. map_of d ''id'') (page_detections pg) =
           map (\<lambda>r. Some (PyInt (row_id r))) (recent 100 (tbl_rows t))))"
proof (intro conjI impI allI)
  show "length (recent limit rs) \<le> limit" by (simp add: length_recent)
  show "sorted_wrt (\<lambda>a b. timestamp b \<le> timestamp a) (recent limit rs)"
    by (rule newest_first_recent)
next
  assume t: "map_of (tables db) ''detections'' = Some t"
  then show "fst (api_detections label_map (Some db)) =
        (200, Json (PyList (map (\<lambda>r. PyDict (with_label label_map r))
                 (recent 100 (tbl_rows t)))))"
    by (simp add: api_detections_table)
next
  fix pg e'
  assume t: "map_of (tables db) ''detections'' = Some t"
    and d: "dashboard utcoffset label_map (Some db) = ((200, Html pg), e')"
  from d obtain shown where
    f: "format_rows utcoffset (map (with_label label_map) (recent 100 (tbl_rows t))) = Inr shown"
    and pg: "page_detections pg = shown"
    by (auto simp: dashboard_table [OF t] render_template_def dashboard_error_def
        split: sum.splits)
  have "map (\<lambda>d. map_of d ''id'') shown =
        map (\<lambda>d. map_of d ''id'') (map (with_label label_map) (recent 100 (tbl_rows t)))"
    by (rule format_rows_ids [OF f])
  also have "\<dots> = map (\<lambda>r. Some (PyInt (row_id r))) (recent 100 (tbl_rows t))"
    by (simp add: map_of_with_label Row_def)
  finally show "map (\<lambda>d. map_of d ''id'') (page_detections pg) =
           map (\<lambda>r. Some (PyInt (row_id r))) (recent 100 (tbl_rows t))"
    by (simp add: pg)
qed



theorem recent_at_most_limit_newest_first_witness:
  "map_of (tables (store_of example_rows)) ''detections'' =
     Some \<lparr>tbl_columns = detections_columns, tbl_rows = example_rows\<rparr> \<and>
   dashboard (\<lambda>_. 0) (LABEL_MAP example_classes) (Some (store_of example_rows)) =
     ((200, Html example_page), Some (store_of example_rows)) \<and>
   length (recent 2 example_rows) \<le> 2 \<and>
   sorted_wrt (\<lambda>a b. timestamp b \<le> timestamp a) (recent 2 example_rows) \<and>
   map (\<lambda>d. map_of d ''id'') (page_detections example_page) =
     map (\<lambda>r. Some (PyInt (row_id r))) (recent 100 example_rows)"
proof -
  have t: "map_of (tables (store_of example_rows)) ''detections'' =
     Some \<lparr>tbl_columns = detections_columns, tbl_rows = example_rows\<rparr>"
    by (simp add: store_of_def)
  have d: "dashboard (\<lambda>_. 0) (LABEL_MAP example_classes) (Some (store_of example_rows)) =
     ((200, Html example_page), Some (store_of example_rows))"
    by code_simp
  from recent_at_most_limit_newest_first
    [of 2 example_rows "store_of example_rows"
      "\<lparr>tbl_columns = detections_columns, tbl_rows = example_rows\<rparr>"
      "LABEL_MAP example_classes" "\<lambda>_. 0"] t d
  show ?thesis by simp
qed

section \<open>The detections API\<close>

text \<open>
  C9. \<open>/api/detections\<close> returns one object per row of the query, made from a stored
  row. The object has the columns of the row as keys; under \<open>id\<close>, \<open>timestamp\<close>,
  \<open>source_ip\<close> and \<open>destination_ip\<close>, and under any key other than \<open>classification\<close>,
  it holds what the row holds; under \<open>classification\<close> it holds the resolved label in
  place of the integer of the row.
\<close>

theorem api_detections_replaces_classification_only:
  "(map_of (tables db) ''detections'' = Some t \<longrightarrow>
      (\<exists>rs. set rs \<subseteq> set (tbl_rows t) \<and>
         fst (api_detections label_map (Some db)) =
           (200, Json (PyList (map (\<lambda>r. PyDict (with_label label_map r)) rs))))) \<and>
   map fst (with_label label_map r) = map fst (Row r) \<and>
   (\<forall>k. k \<noteq> ''classification'' \<longrightarrow>
      map_of (with_label label_map r) k = map_of (Row r) k) \<and>
   map_of (with_label label_map r) ''id'' = Some (PyInt (row_id r)) \<and>
   map_of (with_label label_map r) ''timestamp'' = Some (PyFloat (Fin (timestamp r))) \<and>
   map_of (with_label label_map r) ''source_ip'' = Some (PyStr (source_ip r)) \<and>
   map_of (with_label label_map r) ''destination_ip'' = Some (PyStr (destination_ip r)) \<and>
   map_of (with_label label_map r) ''classification'' =
     Some (PyStr (resolve label_map (classification r))) \<and>
   map_of (Row r) ''classification'' = Some (PyInt (classification r))"
proof -
  have "map_of (tables db) ''detections'' = Some t \<longrightarrow>
      (\<exists>rs. set rs \<subseteq> set (tbl_rows t) \<and>
         fst (api_detections label_map (Some db)) =
           (200, Json (PyList (map (\<lambda>r. PyDict (with_label label_map r)) rs))))"
    using set_recent [of 100 "tbl_rows t"] by (auto simp: api_detections_table)
  moreover have "map fst (with_label label_map r) = map fst (Row r)"
    by (rule keys_with_label)
  moreover have "\<forall>k. k \<noteq> ''classification'' \<longrightarrow>
      map_of (with_label label_map r) k = map_of (Row r) k"
    by (simp add: map_of_with_label)
  moreover have "map_of (with_label label_map r) ''id'' = Some (PyInt (row_id r))"
    "map_of (with_label label_map r) ''timestamp'' = Some (PyFloat (Fin (timestamp r)))"
    "map_of (with_label label_map r) ''source_ip'' = Some (PyStr (source_ip r))"
    "map_of (with_label label_map r) ''destination_ip'' = Some (PyStr (destination_ip r))"
    "map_of (with_label label_map r) ''classification'' =
       Some (PyStr (resolve label_map (classification r)))"
    "map_of (Row r) ''classification'' = Some (PyInt (classification r))"
    by (simp_all add: map_of_with_label Row_def)
  ultimately show ?thesis by blast
qed

theorem api_detections_replaces_classification_only_witness:
  "map_of (tables (store_of example_rows)) ''detections'' =
     Some \<lparr>tbl_columns = detections_columns, tbl_rows = example_rows\<rparr> \<and>
   ''timestamp'' \<noteq> ''classification'' \<and>
   (\<exists>rs. set rs \<subseteq> set example_rows \<and>
      fst (api_detections (LABEL_MAP example_classes) (Some (store_of example_rows))) =
        (200, Json (PyList (map (\<lambda>r. PyDict (with_label (LABEL_MAP example_classes) r)) rs)))) \<and>
   map_of (with_label (LABEL_MAP example_classes) (example_detection 4 1700000090 99))
       ''timestamp'' =
     map_of (Row (example_detection 4 1700000090 99)) ''timestamp'' \<and>
   map_of (with_label (LABEL_MAP example_classes) (example_detection 4 1700000090 99))
       ''classification'' = Some (PyStr ''Unknown'')"
proof -
  have t: "map_of (tables (store_of example_rows)) ''detections'' =
     Some \<lparr>tbl_columns = detections_columns, tbl_rows = example_rows\<rparr>"
    by (simp add: store_of_def)
  have k: "''timestamp'' \<noteq> ''classification''" by simp
  have u: "resolve (LABEL_MAP example_classes) (classification (example_detection 4 1700000090 99))
      = ''Unknown''"
    by code_simp
  from api_detections_replaces_classification_only
    [of "store_of example_rows" "\<lparr>tbl_columns = detections_columns, tbl_rows = example_rows\<rparr>"
      "LABEL_MAP example_classes" "example_detection 4 1700000090 99"] t k u
  show ?thesis by (simp add: Row_def)
qed

section \<open>The stats API\<close>

lemma map_of_stats_dict:
  "map_of (stats_dict label_map stats) =
     map_of (rev (map (\<lambda>(c, n). (resolve label_map c, n)) stats))"
  by (simp add: stats_dict_def map_of_dict_of_pairs)

lemma distinct_keys_stats_dict: "distinct (map fst (stats_dict label_map stats))"
  by (simp add: stats_dict_def distinct_dict_of_pairs)

lemma distinct_keys_count_groups: "distinct (map fst (count_groups cs))"
  by (simp add: keys_count_groups)

lemma count_groups_count:
  "(c, n) \<in> set (count_groups cs) \<longleftrightarrow>
     c \<in> set cs \<and> n = int (length (filter (\<lambda>x. x = c) cs))"
  by (auto simp: count_groups_def)

text \<open>
  C4. The query groups by the raw classification ID: its result has one row per ID that
  occurs, with the number of rows of that ID. The labels are computed afterwards, per
  group, and stored in a dict: a label has one entry in the response, and the count of
  that entry is the count of the last group that resolves to the label. An earlier
  group with the same label leaves no trace.
\<close>

theorem stats_last_write_wins:
  "distinct (map fst (group_by_classification rs)) \<and>
   ((c, n) \<in> set (group_by_classification rs) \<longleftrightarrow>
      c \<in> classification ` set rs \<and>
      n = int (length (filter (\<lambda>r. classification r = c) rs))) \<and>
   distinct (map fst (stats_dict label_map stats)) \<and>
   (stats = earlier @ (c', n') # later \<and>
    (\<forall>(c'', n'') \<in> set later. resolve label_map c'' \<noteq> resolve label_map c') \<longrightarrow>
      map_of (stats_dict label_map stats) (resolve label_map c') = Some n') \<and>
   (map_of (tables db) ''detections'' = Some t \<longrightarrow>
      fst (api_stats label_map (Some db)) =
        (200, Json (PyDict (map (\<lambda>(l, n). (l, PyInt n))
          (stats_dict label_map (group_by_classification (tbl_rows t)))))))"
proof (intro conjI impI)
  show "distinct (map fst (group_by_classification rs))"
    by (simp add: group_by_classification_def distinct_keys_count_groups)
  show "(c, n) \<in> set (group_by_classification rs) \<longleftrightarrow>
      c \<in> classification ` set rs \<and>
      n = int (length (filter (\<lambda>r. classification r = c) rs))"
    by (simp add: group_by_classification_def count_groups_count filter_map comp_def)
  show "distinct (map fst (stats_dict label_map stats))"
    by (rule distinct_keys_stats_dict)
next
  assume a: "stats = earlier @ (c', n') # later \<and>
    (\<forall>(c'', n'') \<in> set later. resolve label_map c'' \<noteq> resolve label_map c')"
  let ?f = "\<lambda>(c, n). (resolve label_map c, n)"
  from a have "resolve label_map c' \<notin> fst ` set (map ?f later)"
    by (auto simp: image_iff split: prod.splits)
  then have none: "map_of (rev (map ?f later)) (resolve label_map c') = None"
    by (simp add: map_of_eq_None_iff)
  have "map_of (stats_dict label_map stats) (resolve label_map c') =
        map_of (rev (map ?f later) @ (resolve label_map c', n') # rev (map ?f earlier))
          (resolve label_map c')"
    using a by (simp add: map_of_stats_dict)
  also have "\<dots> = Some n'"
    using none by (simp add: map_add_def)
  finally show "map_of (stats_dict label_map stats) (resolve label_map c') = Some n'" .
next
  assume "map_of (tables db) ''detections'' = Some t"
  then show "fst (api_stats label_map (Some db)) =
        (200, Json (PyDict (map (\<lambda>(l, n). (l, PyInt n))
          (stats_dict label_map (group_by_classification (tbl_rows t))))))"
    by (simp add: api_stats_table)
qed

theorem stats_last_write_wins_witness:
  "group_by_classification unmapped_rows = [(98, 2)] @ (99, 1) # [] \<and>
   resolve (LABEL_MAP example_classes) 98 = resolve (LABEL_MAP example_classes) 99 \<and>
   map_of (tables (store_of unmapped_rows)) ''detections'' =
     Some \<lparr>tbl_columns = detections_columns, tbl_rows = unmapped_rows\<rparr> \<and>
   map_of (stats_dict (LABEL_MAP example_classes) (group_by_classification unmapped_rows))
     (resolve (LABEL_MAP example_classes) 99) = Some 1 \<and>
   fst (api_stats (LABEL_MAP example_classes) (Some (store_of unmapped_rows))) =
     (200, Json (PyDict [(''Unknown'', PyInt 1)]))"
proof -
  have g: "group_by_classification unmapped_rows = [(98, 2)] @ (99, 1) # []"
    by code_simp
  have l: "resolve (LABEL_MAP example_classes) 98 = resolve (LABEL_MAP example_classes) 99"
    by code_simp
  have t: "map_of (tables (store_of unmapped_rows)) ''detections'' =
     Some \<lparr>tbl_columns = detections_columns, tbl_rows = unmapped_rows\<rparr>"
    by (simp add: store_of_def)
  have s: "stats_dict (LABEL_MAP example_classes) ([(98, 2)] @ (99, 1) # []) =
     [(''Unknown'', 1)]"
    by code_simp
  from stats_last_write_wins
    [of unmapped_rows 99 1 "LABEL_MAP example_classes"
      "group_by_classification unmapped_rows" "[(98, 2)]" 99 1 "[]"
      "store_of unmapped_rows" "\<lparr>tbl_columns = detections_columns, tbl_rows = unmapped_rows\<rparr>"]
    g l t s
  show ?thesis by simp
qed

lemma api_stats_classification_only:
  "map classification rs = cs \<Longrightarrow> group_by_classification rs = count_groups cs"
  by (simp add: group_by_classification_def)

text \<open>
  C5. With the mapping \<open>{0: "BENIGN", 1: "Bot"}\<close> and a store whose rows have the
  classification IDs 0, 1, 0, 99, \<open>/api/stats\<close> answers 200 with the object
  \<open>{"BENIGN": 2, "Bot": 1, "Unknown": 1}\<close>.
\<close>

theorem api_stats_example:
  assumes "map_of (tables db) ''detections'' = Some t"
    and "map classification (tbl_rows t) = [0, 1, 0, 99]"
  shows "api_stats (LABEL_MAP [''BENIGN'', ''Bot'']) (Some db) =
     ((200, Json (PyDict [(''BENIGN'', PyInt 2), (''Bot'', PyInt 1), (''Unknown'', PyInt 1)])),
      Some db)"
proof -
  have "stats_dict (LABEL_MAP [''BENIGN'', ''Bot'']) (count_groups [0, 1, 0, 99]) =
      [(''BENIGN'', 2), (''Bot'', 1), (''Unknown'', 1)]"
    by code_simp
  then show ?thesis
    using assms by (simp add: api_stats_table group_by_classification_def)
qed

theorem api_stats_example_witness:
  "map_of (tables (store_of example_rows)) ''detections'' =
     Some \<lparr>tbl_columns = detections_columns, tbl_rows = example_rows\<rparr> \<and>
   map classification (tbl_rows \<lparr>tbl_columns = detections_columns, tbl_rows = example_rows\<rparr>) =
     [0, 1, 0, 99] \<and>
   api_stats (LABEL_MAP [''BENIGN'', ''Bot'']) (Some (store_of example_rows)) =
     ((200, Json (PyDict [(''BENIGN'', PyInt 2), (''Bot'', PyInt 1), (''Unknown'', PyInt 1)])),
      Some (store_of example_rows))"
proof -
  have t: "map_of (tables (store_of example_rows)) ''detections'' =
     Some \<lparr>tbl_columns = detections_columns, tbl_rows = example_rows\<rparr>"
    by (simp add: store_of_def)
  have c: "map classification
      (tbl_rows \<lparr>tbl_columns = detections_columns, tbl_rows = example_rows\<rparr>) = [0, 1, 0, 99]"
    by (simp add: example_rows_def example_detection_def)
  from api_stats_example [OF t c] t c show ?thesis by simp
qed

lemma sum_group_by_classification:
  "sum_list (map snd (group_by_classification rs)) = int (length rs)"
  by (simp add: group_by_classification_def sum_count_groups)

lemma stats_dict_injective:
  assumes "inj_on (resolve label_map) (classification ` set rs)"
  shows "sum_list (map snd (stats_dict label_map (group_by_classification rs))) =
         int (length rs)"
proof -
  let ?g = "group_by_classification rs"
  let ?f = "\<lambda>(c, n). (resolve label_map c, n)"
  have keys: "set (map fst ?g) = classification ` set rs"
    by (simp add: group_by_classification_def keys_count_groups)
  have k: "map fst (map ?f ?g) = map (resolve label_map) (map fst ?g)"
    by (simp add: comp_def case_prod_beta)
  have v: "map snd (map ?f ?g) = map snd ?g"
    by (simp add: comp_def case_prod_beta)
  have "distinct (map fst ?g)"
    by (simp add: group_by_classification_def distinct_keys_count_groups)
  moreover have "inj_on (resolve label_map) (set (map fst ?g))"
    using assms by (simp only: keys)
  ultimately have "distinct (map (resolve label_map) (map fst ?g))"
    by (simp only: distinct_map)
  then have "distinct (map fst (map ?f ?g))"
    by (simp only: k)
  then have "stats_dict label_map ?g = map ?f ?g"
    unfolding stats_dict_def by (rule dict_of_pairs_distinct)
  then show ?thesis
    by (simp only: v sum_group_by_classification)
qed

text \<open>
  C2. The counts of the query add up to the number of rows. The counts of the response do
  so when no two IDs of the store share a label; they do not in general: with the mapping
  \<open>{0: "BENIGN", 1: "Bot"}\<close> and rows of the IDs 98, 98 and 99, the response is
  \<open>{"Unknown": 1}\<close>, whose counts add up to 1, for three rows.
\<close>

theorem api_stats_loses_counts:
  "api_stats (LABEL_MAP [''BENIGN'', ''Bot'']) (Some (store_of unmapped_rows)) =
     ((200, Json (PyDict [(''Unknown'', PyInt 1)])), Some (store_of unmapped_rows)) \<and>
   sum_list (map snd (stats_dict (LABEL_MAP [''BENIGN'', ''Bot''])
      (group_by_classification unmapped_rows))) = 1 \<and>
   length unmapped_rows = 3"
  by code_simp

section \<open>The timestamp filter\<close>

lemma datetime_filter_caught:
  assumes "py_float v = Inl (c, msg)" and "c = ValueError \<or> c = TypeError"
  shows "datetime_filter utcoffset v = Inr ''Invalid timestamp''"
  using assms by (auto simp: datetime_filter_def)

lemma datetime_filter_raises:
  assumes "datetime_filter utcoffset v = Inl err"
  shows "fst err \<noteq> ValueError \<and> fst err \<noteq> TypeError"
  using assms by (auto simp: datetime_filter_def Let_def split: sum.splits if_splits)

lemma datetime_filter_not_a_number:
  "datetime_filter utcoffset (PyStr ''not-a-number'') = Inr ''Invalid timestamp''"
proof -
  have "py_float (PyStr ''not-a-number'') = Inl (ValueError, ''could not convert string to float'')"
    by code_simp
  then show ?thesis by (rule datetime_filter_caught) simp
qed

lemma datetime_filter_None:
  "datetime_filter utcoffset PyNone = Inr ''Invalid timestamp''"
  by (rule datetime_filter_caught [where c = TypeError]) (simp_all add: py_float_def)

lemma round_half_even_of_int: "round_half_even (of_int n) = n"
  by (simp add: round_half_even_def)

lemma fromtimestamp_out_of_range:
  "fromtimestamp utcoffset (Fin (10 ^ 30)) =
     Inl (OverflowError, ''timestamp out of range for platform time_t'')"
proof -
  have "(10::real) ^ 30 * 1000000 = of_int (10 ^ 36)" by simp
  then have "round_half_even (10 ^ 30 * 1000000) = 10 ^ 36"
    by (simp only: round_half_even_of_int)
  then show ?thesis
    by (simp add: fromtimestamp_def Let_def time_t_min_def time_t_max_def)
qed

text \<open>
  C6. The filter returns \<open>''Invalid timestamp''\<close> for a value that \<open>float\<close> rejects, such as
  the string \<open>not-a-number\<close>. It does raise, though: the float \<open>1e30\<close> lies outside
  \<open>time_t\<close>, \<open>datetime.fromtimestamp\<close> raises \<open>OverflowError\<close>, and the \<open>except\<close>
  clause names \<open>ValueError\<close> and \<open>TypeError\<close> only. The same holds for an infinity.
\<close>

theorem datetime_filter_raises_OverflowError:
  "datetime_filter utcoffset (PyFloat (Fin (10 ^ 30))) =
     Inl (OverflowError, ''timestamp out of range for platform time_t'') \<and>
   datetime_filter utcoffset (PyFloat PosInf) =
     Inl (OverflowError, ''timestamp out of range for platform time_t'') \<and>
   datetime_filter utcoffset (PyStr ''not-a-number'') = Inr ''Invalid timestamp''"
proof (intro conjI)
  show "datetime_filter utcoffset (PyFloat (Fin (10 ^ 30))) =
     Inl (OverflowError, ''timestamp out of range for platform time_t'')"
    unfolding datetime_filter_def py_float_def Let_def
    by (simp only: pyval.case sum.case fromtimestamp_out_of_range fst_conv) simp
  show "datetime_filter utcoffset (PyFloat PosInf) =
     Inl (OverflowError, ''timestamp out of range for platform time_t'')"
    by (simp add: datetime_filter_def py_float_def fromtimestamp_def)
  show "datetime_filter utcoffset (PyStr ''not-a-number'') = Inr ''Invalid timestamp''"
    by (rule datetime_filter_not_a_number)
qed

section \<open>Initialisation\<close>

lemma create_table_present:
  "map_of (tables db) ''detections'' = Some t \<Longrightarrow> create_table_if_not_exists db = Inr db"
  by (simp add: create_table_if_not_exists_def find_table_detections)

lemma init_db_Some:
  "init_db (Some db) =
     Inr (Some (case create_table_if_not_exists db of Inl err \<Rightarrow> db | Inr db' \<Rightarrow> db'))"
  by (simp add: init_db_def connect_def split: sum.splits)

lemma create_table_twice:
  "create_table_if_not_exists db = Inr db' \<Longrightarrow> create_table_if_not_exists db' = Inr db'"
  by (auto simp: create_table_if_not_exists_def find_table_detections table_key_detections
      map_add_def split: option.splits if_splits)

text \<open>
  On a database that can be opened, \<open>init_db\<close> returns; a call that follows a call
  that returned changes nothing, and neither does a call on a database that has the
  table. On a new database the first call adds the table and \<open>sqlite_sequence\<close>.
\<close>

lemma init_db_returns: "\<exists>db'. init_db (Some db) = Inr (Some db')"
  by (simp add: init_db_Some)

lemma init_db_second_call:
  assumes "init_db e = Inr e'"
  shows "init_db e' = Inr e'"
proof (cases e)
  case None
  with assms show ?thesis by (simp add: init_db_def connect_def)
next
  case (Some d)
  show ?thesis
  proof (cases "create_table_if_not_exists d")
    case (Inl err)
    with assms Some have "e' = Some d" by (simp add: init_db_Some)
    with Inl show ?thesis by (simp add: init_db_Some)
  next
    case (Inr d')
    with assms Some have "e' = Some d'" by (simp add: init_db_Some)
    with create_table_twice [OF Inr] show ?thesis by (simp add: init_db_Some)
  qed
qed

lemma init_db_existing_table:
  "map_of (tables db) ''detections'' = Some t \<Longrightarrow> init_db (Some db) = Inr (Some db)"
  by (simp add: init_db_Some create_table_present)

lemma init_db_new_database:
  "init_db (Some empty_database) = Inr (Some (store_of [])) \<and>
   table_names empty_database = [] \<and>
   table_names (store_of []) = [''detections'', ''sqlite_sequence'']"
  by (simp add: init_db_Some create_table_if_not_exists_def find_table_detections
      table_key_detections empty_database_def store_of_def table_names_def)

text \<open>
  C7. When the database file cannot be opened, \<open>init_db\<close> does not return: the error
  of \<open>sqlite3.connect\<close> leaves the function, on the first call already, because the
  call stands before the \<open>try\<close> whose \<open>except\<close> clause prints and drops an
  \<open>sqlite3.Error\<close>. \<open>get_db_connection\<close>, which has the same call inside its
  \<open>try\<close>, returns \<open>None\<close> on the same file.
\<close>

theorem init_db_raises_unable_to_open:
  "init_db None = Inl (OperationalError, ''unable to open database file'') \<and>
   get_db_connection None = None"
  by (simp add: init_db_def get_db_connection_def connect_def unable_to_open_def)

section \<open>The dashboard on an empty store\<close>

text \<open>
  C8. On a store whose table \<open>detections\<close> has no rows, the dashboard answers 200 with
  a page that shows no detection and no count, and leaves the store as it is.
\<close>

theorem dashboard_empty_store:
  assumes "map_of (tables db) ''detections'' = Some t" and "tbl_rows t = []"
  shows "dashboard utcoffset label_map (Some db) =
     ((200, Html \<lparr>page_detections = [], page_stats = []\<rparr>), Some db)"
  using assms
  by (simp add: dashboard_table recent_def order_by_timestamp_desc_def
      group_by_classification_def count_groups_def stats_dict_def dict_of_pairs_def
      render_template_def)

theorem dashboard_empty_store_witness:
  "map_of (tables (store_of [])) ''detections'' =
     Some \<lparr>tbl_columns = detections_columns, tbl_rows = []\<rparr> \<and>
   tbl_rows \<lparr>tbl_columns = detections_columns, tbl_rows = []\<rparr> = [] \<and>
   dashboard (\<lambda>_. 0) (LABEL_MAP example_classes) (Some (store_of [])) =
     ((200, Html \<lparr>page_detections = [], page_stats = []\<rparr>), Some (store_of []))"
proof -
  have t: "map_of (tables (store_of [])) ''detections'' =
     Some \<lparr>tbl_columns = detections_columns, tbl_rows = []\<rparr>"
    by (simp add: store_of_def)
  have r: "tbl_rows \<lparr>tbl_columns = detections_columns, tbl_rows = []\<rparr> = []"
    by simp
  from dashboard_empty_store [OF t r] t r show ?thesis by simp
qed

section \<open>The handlers only read\<close>

lemma select_recent_reads: "snd (select_recent limit db) = db"
  by (simp add: select_recent_def split: option.splits)

lemma select_stats_reads: "snd (select_stats db) = db"
  by (simp add: select_stats_def split: option.splits)

lemma api_detections_reads: "snd (api_detections label_map e) = e"
proof (cases e)
  case None
  then show ?thesis by (simp add: api_detections_def get_db_connection_def connect_def)
next
  case (Some db)
  obtain r d where r: "select_recent 100 db = (r, d)" by (cases "select_recent 100 db")
  with select_recent_reads [of 100 db] have "d = db" by simp
  with Some r show ?thesis
    by (simp add: api_detections_def get_db_connection_def connect_def split: sum.splits)
qed

lemma api_stats_reads: "snd (api_stats label_map e) = e"
proof (cases e)
  case None
  then show ?thesis by (simp add: api_stats_def get_db_connection_def connect_def)
next
  case (Some db)
  obtain r d where r: "select_stats db = (r, d)" by (cases "select_stats db")
  with select_stats_reads [of db] have "d = db" by simp
  with Some r show ?thesis
    by (simp add: api_stats_def get_db_connection_def connect_def split: sum.splits)
qed

lemma dashboard_reads: "snd (dashboard utcoffset label_map e) = e"
proof (cases e)
  case None
  then show ?thesis by (simp add: dashboard_def get_db_connection_def connect_def)
next
  case (Some db)
  obtain r1 d1 where r1: "select_recent 100 db = (r1, d1)" by (cases "select_recent 100 db")
  with select_recent_reads [of 100 db] have d1: "d1 = db" by simp
  obtain r2 d2 where r2: "select_stats db = (r2, d2)" by (cases "select_stats db")
  with select_stats_reads [of db] have d2: "d2 = db" by simp
  show ?thesis
    using Some r1 r2 d1 d2
    by (simp add: dashboard_def get_db_connection_def connect_def Let_def
        split: sum.splits)
qed

section \<open>The handlers as functions of the table\<close>

lemma insert_desc_insort_key:
  "insert_desc r xs = insort_key (\<lambda>r. - timestamp r) r xs"
  by (induction xs) simp_all

lemma order_by_timestamp_desc_sort_key:
  "order_by_timestamp_desc rs = sort_key (\<lambda>r. - timestamp r) rs"
  unfolding order_by_timestamp_desc_def sort_key_def
  by (induction rs) (simp_all add: insert_desc_insort_key)

lemma recent_sort_key:
  "recent limit rs = take limit (sort_key (\<lambda>r. - timestamp r) rs)"
  by (simp add: recent_def order_by_timestamp_desc_sort_key)

lemma api_detections_no_table:
  "map_of (tables db) ''detections'' = None \<Longrightarrow>
   api_detections label_map (Some db) =
     ((500, json_error ''no such table: detections''), Some db)"
  by (simp add: api_detections_def get_db_connection_def connect_def select_recent_def
      find_table_detections no_such_table_def)

lemma api_stats_no_table:
  "map_of (tables db) ''detections'' = None \<Longrightarrow>
   api_stats label_map (Some db) =
     ((500, json_error ''no such table: detections''), Some db)"
  by (simp add: api_stats_def get_db_connection_def connect_def select_stats_def
      find_table_detections no_such_table_def)

lemma dashboard_no_table:
  "map_of (tables db) ''detections'' = None \<Longrightarrow>
   dashboard utcoffset label_map (Some db) =
     ((500, Text ''An error occurred: no such table: detections''), Some db)"
  by (simp add: dashboard_def get_db_connection_def connect_def select_recent_def
      find_table_detections no_such_table_def dashboard_error_def)

lemma handlers_no_database:
  "api_detections label_map None = ((500, json_error ''Database connection error''), None)"
  "api_stats label_map None = ((500, json_error ''Database connection error''), None)"
  "dashboard utcoffset label_map None = ((500, Text ''Database connection error''), None)"
  by (simp_all add: api_detections_def api_stats_def dashboard_def get_db_connection_def
      connect_def)

lemma dashboard_table_response:
  "map_of (tables db) ''detections'' = Some t \<Longrightarrow>
   fst (dashboard utcoffset label_map (Some db)) =
     (case render_template utcoffset (map (with_label label_map) (recent 100 (tbl_rows t)))
             (stats_dict label_map (group_by_classification (tbl_rows t))) of
        Inl err \<Rightarrow> (500, Text (''An error occurred: '' @ snd err))
      | Inr html \<Rightarrow> (200, Html html))"
  by (simp add: dashboard_table dashboard_error_def split: sum.splits)

lemma handlers_same_table:
  assumes "map_of (tables db) ''detections'' = map_of (tables db') ''detections''"
  shows "fst (dashboard utcoffset label_map (Some db)) =
           fst (dashboard utcoffset label_map (Some db'))"
    and "fst (api_detections label_map (Some db)) = fst (api_detections label_map (Some db'))"
    and "fst (api_stats label_map (Some db)) = fst (api_stats label_map (Some db'))"
proof -
  show "fst (dashboard utcoffset label_map (Some db)) =
           fst (dashboard utcoffset label_map (Some db'))"
  proof (cases "map_of (tables db) ''detections''")
    case None
    with assms have "map_of (tables db') ''detections'' = None" by simp
    with None show ?thesis by (simp add: dashboard_no_table)
  next
    case (Some t)
    with assms have "map_of (tables db') ''detections'' = Some t" by simp
    with Some show ?thesis by (simp add: dashboard_table_response)
  qed
  show "fst (api_detections label_map (Some db)) = fst (api_detections label_map (Some db'))"
  proof (cases "map_of (tables db) ''detections''")
    case None
    with assms have "map_of (tables db') ''detections'' = None" by simp
    with None show ?thesis by (simp add: api_detections_no_table)
  next
    case (Some t)
    with assms have "map_of (tables db') ''detections'' = Some t" by simp
    with Some show ?thesis by (simp add: api_detections_table)
  qed
  show "fst (api_stats label_map (Some db)) = fst (api_stats label_map (Some db'))"
  proof (cases "map_of (tables db) ''detections''")
    case None
    with assms have "map_of (tables db') ''detections'' = None" by simp
    with None show ?thesis by (simp add: api_stats_no_table)
  next
    case (Some t)
    with assms have "map_of (tables db') ''detections'' = Some t" by simp
    with Some show ?thesis by (simp add: api_stats_table)
  qed
qed

text \<open>
  C10. No handler changes the store: each returns the environment it was given, so a
  second request to the same handler gets the response of the first. The label mapping
  is an argument that is only read. The response is determined by the table
  \<open>detections\<close>, the label mapping and, for the dashboard, the local time zone: two
  databases with the same table \<open>detections\<close> get the same response, whatever else
  they hold. With the table present, \<open>/api/detections\<close> answers the 100 first rows
  in descending order of timestamp, rows of equal timestamp in the order of the table,
  each with the keys \<open>id\<close>, \<open>timestamp\<close>, \<open>source_ip\<close>, \<open>destination_ip\<close>,
  \<open>classification\<close> in this order; \<open>/api/stats\<close> answers the dict of the groups;
  the dashboard renders both, or answers 500 when the rendering fails. Without the table
  and without a database each handler answers 500 with a fixed message.
\<close>

theorem handlers_determined_by_detections:
  "snd (dashboard utcoffset label_map e) = e \<and>
   snd (api_detections label_map e) = e \<and>
   snd (api_stats label_map e) = e \<and>
   fst (dashboard utcoffset label_map (snd (dashboard utcoffset label_map e))) =
     fst (dashboard utcoffset label_map e) \<and>
   fst (api_detections label_map (snd (api_detections label_map e))) =
     fst (api_detections label_map e) \<and>
   fst (api_stats label_map (snd (api_stats label_map e))) =
     fst (api_stats label_map e) \<and>
   (map_of (tables db) ''detections'' = map_of (tables db') ''detections'' \<longrightarrow>
      fst (dashboard utcoffset label_map (Some db)) =
        fst (dashboard utcoffset label_map (Some db')) \<and>
      fst (api_detections label_map (Some db)) = fst (api_detections label_map (Some db')) \<and>
      fst (api_stats label_map (Some db)) = fst (api_stats label_map (Some db'))) \<and>
   (map_of (tables db) ''detections'' = Some t \<longrightarrow>
      fst (api_detections label_map (Some db)) =
        (200, Json (PyList (map (\<lambda>r. PyDict (with_label label_map r))
                 (take 100 (sort_key (\<lambda>r. - timestamp r) (tbl_rows t)))))) \<and>
      (\<forall>r. map fst (with_label label_map r) =
         [''id'', ''timestamp'', ''source_ip'', ''destination_ip'', ''classification'']) \<and>
      fst (api_stats label_map (Some db)) =
        (200, Json (PyDict (map (\<lambda>(l, n). (l, PyInt n))
                 (stats_dict label_map (group_by_classification (tbl_rows t)))))) \<and>
      fst (dashboard utcoffset label_map (Some db)) =
        (case render_template utcoffset
                (map (with_label label_map)
                   (take 100 (sort_key (\<lambda>r. - timestamp r) (tbl_rows t))))
                (stats_dict label_map (group_by_classification (tbl_rows t))) of
           Inl err \<Rightarrow> (500, Text (''An error occurred: '' @ snd err))
         | Inr html \<Rightarrow> (200, Html html))) \<and>
   (map_of (tables db) ''detections'' = None \<longrightarrow>
      fst (api_detections label_map (Some db)) =
        (500, Json (PyDict [(''error'', PyStr ''no such table: detections'')])) \<and>
      fst (api_stats label_map (Some db)) =
        (500, Json (PyDict [(''error'', PyStr ''no such table: detections'')])) \<and>
      fst (dashboard utcoffset label_map (Some db)) =
        (500, Text ''An error occurred: no such table: detections'')) \<and>
   fst (api_detections label_map None) =
     (500, Json (PyDict [(''error'', PyStr ''Database connection error'')])) \<and>
   fst (api_stats label_map None) =
     (500, Json (PyDict [(''error'', PyStr ''Database connection error'')])) \<and>
   fst (dashboard utcoffset label_map None) = (500, Text ''Database connection error'')"
proof -
  have frame: "snd (dashboard utcoffset label_map e) = e"
    "snd (api_detections label_map e) = e" "snd (api_stats label_map e) = e"
    by (rule dashboard_reads, rule api_detections_reads, rule api_stats_reads)
  have again: "fst (dashboard utcoffset label_map (snd (dashboard utcoffset label_map e))) =
      fst (dashboard utcoffset label_map e)"
    "fst (api_detections label_map (snd (api_detections label_map e))) =
      fst (api_detections label_map e)"
    "fst (api_stats label_map (snd (api_stats label_map e))) = fst (api_stats label_map e)"
    by (simp_all only: frame)
  have same: "map_of (tables db) ''detections'' = map_of (tables db') ''detections'' \<longrightarrow>
      fst (dashboard utcoffset label_map (Some db)) =
        fst (dashboard utcoffset label_map (Some db')) \<and>
      fst (api_detections label_map (Some db)) = fst (api_detections label_map (Some db')) \<and>
      fst (api_stats label_map (Some db)) = fst (api_stats label_map (Some db'))"
    using handlers_same_table [of db db'] by blast
  have present: "map_of (tables db) ''detections'' = Some t \<longrightarrow>
      fst (api_detections label_map (Some db)) =
        (200, Json (PyList (map (\<lambda>r. PyDict (with_label label_map r))
                 (take 100 (sort_key (\<lambda>r. - timestamp r) (tbl_rows t)))))) \<and>
      (\<forall>r. map fst (with_label label_map r) =
         [''id'', ''timestamp'', ''source_ip'', ''destination_ip'', ''classification'']) \<and>
      fst (api_stats label_map (Some db)) =
        (200, Json (PyDict (map (\<lambda>(l, n). (l, PyInt n))
                 (stats_dict label_map (group_by_classification (tbl_rows t)))))) \<and>
      fst (dashboard utcoffset label_map (Some db)) =
        (case render_template utcoffset
                (map (with_label label_map)
                   (take 100 (sort_key (\<lambda>r. - timestamp r) (tbl_rows t))))
                (stats_dict label_map (group_by_classification (tbl_rows t))) of
           Inl err \<Rightarrow> (500, Text (''An error occurred: '' @ snd err))
         | Inr html \<Rightarrow> (200, Html html))"
    by (simp add: api_detections_table api_stats_table dashboard_table_response
        recent_sort_key keys_with_label keys_Row)
  have absent: "map_of (tables db) ''detections'' = None \<longrightarrow>
      fst (api_detections label_map (Some db)) =
        (500, Json (PyDict [(''error'', PyStr ''no such table: detections'')])) \<and>
      fst (api_stats label_map (Some db)) =
        (500, Json (PyDict [(''error'', PyStr ''no such table: detections'')])) \<and>
      fst (dashboard utcoffset label_map (Some db)) =
        (500, Text ''An error occurred: no such table: detections'')"
    by (simp add: api_detections_no_table api_stats_no_table dashboard_no_table
        json_error_def)
  have closed: "fst (api_detections label_map None) =
     (500, Json (PyDict [(''error'', PyStr ''Database connection error'')]))"
    "fst (api_stats label_map None) =
     (500, Json (PyDict [(''error'', PyStr ''Database connection error'')]))"
    "fst (dashboard utcoffset label_map None) = (500, Text ''Database connection error'')"
    by (simp_all add: handlers_no_database json_error_def)
  from frame again same present absent closed show ?thesis by blast
qed

theorem handlers_determined_by_detections_witness:
  "map_of (tables (store_of tied_rows)) ''detections'' =
     map_of (tables (archive_of tied_rows)) ''detections'' \<and>
   map_of (tables (store_of tied_rows)) ''detections'' =
     Some \<lparr>tbl_columns = detections_columns, tbl_rows = tied_rows\<rparr> \<and>
   store_of tied_rows \<noteq> archive_of tied_rows \<and>
   take 100 (sort_key (\<lambda>r. - timestamp r) tied_rows) =
     [example_detection 2 1700000060 1, example_detection 3 1700000060 0,
      example_detection 1 1700000000 0, example_detection 4 1700000000 99] \<and>
   fst (api_detections (LABEL_MAP example_classes) (Some (store_of tied_rows))) =
     (200, Json (PyList (map (\<lambda>r. PyDict (with_label (LABEL_MAP example_classes) r))
        [example_detection 2 1700000060 1, example_detection 3 1700000060 0,
         example_detection 1 1700000000 0, example_detection 4 1700000000 99]))) \<and>
   snd (api_detections (LABEL_MAP example_classes) (Some (store_of tied_rows))) =
     Some (store_of tied_rows) \<and>
   fst (api_detections (LABEL_MAP example_classes) (Some (archive_of tied_rows))) =
     fst (api_detections (LABEL_MAP example_classes) (Some (store_of tied_rows))) \<and>
   fst (api_stats (LABEL_MAP example_classes) (Some (archive_of tied_rows))) =
     fst (api_stats (LABEL_MAP example_classes) (Some (store_of tied_rows))) \<and>
   fst (dashboard utc (LABEL_MAP example_classes) (Some (archive_of tied_rows))) =
     fst (dashboard utc (LABEL_MAP example_classes) (Some (store_of tied_rows)))"
proof -
  have a: "map_of (tables (store_of tied_rows)) ''detections'' =
     map_of (tables (archive_of tied_rows)) ''detections''"
    by (simp add: store_of_def archive_of_def)
  have t: "map_of (tables (store_of tied_rows)) ''detections'' =
     Some \<lparr>tbl_columns = detections_columns, tbl_rows = tied_rows\<rparr>"
    by (simp add: store_of_def)
  have n: "store_of tied_rows \<noteq> archive_of tied_rows"
    by (simp add: store_of_def archive_of_def)
  have s: "take 100 (sort_key (\<lambda>r. - timestamp r) tied_rows) =
     [example_detection 2 1700000060 1, example_detection 3 1700000060 0,
      example_detection 1 1700000000 0, example_detection 4 1700000000 99]"
    by (simp add: tied_rows_def example_detection_def)
  have h: "fst (api_detections (LABEL_MAP example_classes) (Some (store_of tied_rows))) =
        (200, Json (PyList (map (\<lambda>r. PyDict (with_label (LABEL_MAP example_classes) r))
           (take 100 (sort_key (\<lambda>r. - timestamp r)
              (tbl_rows \<lparr>tbl_columns = detections_columns, tbl_rows = tied_rows\<rparr>)))))) \<and>
      snd (api_detections (LABEL_MAP example_classes) (Some (store_of tied_rows))) =
        Some (store_of tied_rows) \<and>
      fst (api_detections (LABEL_MAP example_classes) (Some (store_of tied_rows))) =
        fst (api_detections (LABEL_MAP example_classes) (Some (archive_of tied_rows))) \<and>
      fst (api_stats (LABEL_MAP example_classes) (Some (store_of tied_rows))) =
        fst (api_stats (LABEL_MAP example_classes) (Some (archive_of tied_rows))) \<and>
      fst (dashboard utc (LABEL_MAP example_classes) (Some (store_of tied_rows))) =
        fst (dashboard utc (LABEL_MAP example_classes) (Some (archive_of tied_rows)))"
    using handlers_determined_by_detections
      [of utc "LABEL_MAP example_classes" "Some (store_of tied_rows)" "store_of tied_rows"
        "archive_of tied_rows" "\<lparr>tbl_columns = detections_columns, tbl_rows = tied_rows\<rparr>"]
      a t
    by blast
  from h s have p: "fst (api_detections (LABEL_MAP example_classes) (Some (store_of tied_rows))) =
     (200, Json (PyList (map (\<lambda>r. PyDict (with_label (LABEL_MAP example_classes) r))
        [example_detection 2 1700000060 1, example_detection 3 1700000060 0,
         example_detection 1 1700000000 0, example_detection 4 1700000000 99])))"
    by (simp only: table.simps)
  from h have f: "snd (api_detections (LABEL_MAP example_classes) (Some (store_of tied_rows))) =
     Some (store_of tied_rows)"
    by (rule conjunct1 [OF conjunct2])
  from h have d: "fst (api_detections (LABEL_MAP example_classes) (Some (archive_of tied_rows))) =
     fst (api_detections (LABEL_MAP example_classes) (Some (store_of tied_rows)))"
    and e: "fst (api_stats (LABEL_MAP example_classes) (Some (archive_of tied_rows))) =
     fst (api_stats (LABEL_MAP example_classes) (Some (store_of tied_rows)))"
    and g: "fst (dashboard utc (LABEL_MAP example_classes) (Some (archive_of tied_rows))) =
     fst (dashboard utc (LABEL_MAP example_classes) (Some (store_of tied_rows)))"
    by (blast intro: sym)+
  show ?thesis
    by (intro conjI) (fact a, fact t, fact n, fact s, fact p, fact f, fact d, fact e, fact g)
qed

text \<open>
  The page of the dashboard is not determined by the store and the label mapping alone:
  for the same four detections it differs between UTC and a zone one hour east of it.
\<close>

theorem dashboard_depends_on_time_zone:
  "fst (dashboard utc (LABEL_MAP example_classes) (Some (store_of example_rows))) \<noteq>
   fst (dashboard utc_plus_one (LABEL_MAP example_classes) (Some (store_of example_rows)))"
  by code_simp

end
